theory Spec2Isabelle
  imports Complex_Main "HOL-Library.Log_Nat"
begin

section \<open>TTFB attribution (src/attribution/onTTFB.ts)\<close>

text \<open>
  The module decorates a TTFB metric with a breakdown of its value into four
  sub-intervals, and wraps the report callback of the unattributed \<open>onTTFB\<close> so that the
  breakdown is attached before the callback runs.

  Timestamps are JavaScript numbers (\<open>DOMHighResTimeStamp\<close>), that is IEEE 754 doubles.
  A finite double is a \<^typ>\<open>real\<close> here; NaN and the infinities are outside the model.
  The function is modelled twice. \<open>attributeTTFB\<close> subtracts exactly, which is what the
  source does whenever no subtraction rounds; it carries the properties of order, of
  frame and of the scenarios with whole numbers. \<open>attributeTTFB_rounded\<close> is the same
  function with the rounding of every subtraction written out; with \<open>round_double\<close> it
  is the arithmetic of the source, and it carries the property of the sum.
  An optional property (\<open>activationStart\<close>, which only prerender-capable
  browsers expose, and \<open>attribution\<close>, which is missing until \<open>attributeTTFB\<close> has run) is
  an \<^typ>\<open>'a option\<close>, with \<^const>\<open>None\<close> for \<open>undefined\<close>.
\<close>

subsection \<open>Data\<close>

text \<open>The fields of the navigation timing entry that the module reads.\<close>

record navEntry =
  activationStart :: "real option"
  domainLookupStart :: real
  connectStart :: real
  requestStart :: real

text \<open>The object literal assigned to \<open>metric.attribution\<close>.\<close>

record attribution =
  waitingTime :: real
  dnsTime :: real
  connectionTime :: real
  requestTime :: real

text \<open>
  The metric object. The field \<open>id\<close> of the source is \<open>id'\<close> here, since \<open>id\<close> is the
  identity function of HOL. \<open>name\<close> and \<open>navigationType\<close> are string literals in the
  source.
\<close>

record metric =
  name :: string
  "value" :: real
  delta :: real
  id' :: string
  entries :: "navEntry list"
  navigationType :: string
  attribution :: "attribution option"

subsection \<open>attributeTTFB\<close>

text \<open>
  \<open>x || 0\<close> on an optional number: the left operand when it is truthy, the right one
  when it is \<open>undefined\<close> or \<open>0\<close>.
\<close>

definition or_zero :: "real option \<Rightarrow> real" where
  "or_zero x = (case x of None \<Rightarrow> 0 | Some a \<Rightarrow> if a = 0 then 0 else a)"

text \<open>Line 24: \<open>const activationStart = navEntry.activationStart || 0\<close>.\<close>

definition activationStart_offset :: "navEntry \<Rightarrow> real" where
  "activationStart_offset navEntry = or_zero (activationStart navEntry)"

text \<open>
  Lines 26 to 28: the three local constants \<open>dnsStart\<close>, \<open>connectStart\<close> and
  \<open>requestStart\<close>. The last two carry a suffix, the plain names being the fields of
  the entry.
\<close>

definition dnsStart :: "navEntry \<Rightarrow> real" where
  "dnsStart navEntry = max 0 (domainLookupStart navEntry - activationStart_offset navEntry)"

definition connectStart_shifted :: "navEntry \<Rightarrow> real" where
  "connectStart_shifted navEntry = max 0 (connectStart navEntry - activationStart_offset navEntry)"

definition requestStart_shifted :: "navEntry \<Rightarrow> real" where
  "requestStart_shifted navEntry = max 0 (requestStart navEntry - activationStart_offset navEntry)"

text \<open>
  Lines 21 to 44, with exact subtraction. The source mutates its argument; the model
  returns the updated metric.
\<close>

definition attributeTTFB :: "metric \<Rightarrow> metric" where
  "attributeTTFB metric =
     (if length (entries metric) \<noteq> 0 then
        let navEntry = entries metric ! 0 in
        metric\<lparr>attribution := Some
          \<lparr>waitingTime = dnsStart navEntry,
           dnsTime = connectStart_shifted navEntry - dnsStart navEntry,
           connectionTime = requestStart_shifted navEntry - connectStart_shifted navEntry,
           requestTime = value metric - requestStart_shifted navEntry\<rparr>\<rparr>
      else
        metric\<lparr>attribution := Some
          \<lparr>waitingTime = 0,
           dnsTime = 0,
           connectionTime = 0,
           requestTime = 0\<rparr>\<rparr>)"

subsection \<open>Double-precision arithmetic\<close>

text \<open>
  Rounding to the nearest integer, ties to the even one.
\<close>

definition round_half_even :: "real \<Rightarrow> int" where
  "round_half_even x =
     (let f = \<lfloor>x\<rfloor> in
      if x - of_int f < 1 / 2 then f
      else if 1 / 2 < x - of_int f then f + 1
      else if even f then f else f + 1)"

text \<open>
  Rounding to a binary floating-point format with \<open>p\<close> significant bits whose
  smallest positive number is \<open>1 / 2 ^ E\<close>: the numbers of the format are the
  multiples \<open>i * 2 ^ k / 2 ^ E\<close> with \<open>\<bar>i\<bar> \<le> 2 ^ p\<close>. A real whose scaled magnitude
  \<open>\<bar>x\<bar> * 2 ^ E\<close> has \<open>p + k\<close> bits before the point is rounded to the nearest
  multiple of \<open>2 ^ k / 2 ^ E\<close>, ties to even; below \<open>p\<close> bits (the subnormal range)
  \<open>k\<close> is \<open>0\<close>. The exponent is not bounded above: overflow to infinity is not
  modelled.
\<close>

definition round_binary :: "nat \<Rightarrow> nat \<Rightarrow> real \<Rightarrow> real" where
  "round_binary p E x =
     (let k = floorlog 2 (nat \<lfloor>\<bar>x\<bar> * 2 ^ E\<rfloor>) - p in
      of_int (round_half_even (x * 2 ^ E / 2 ^ k)) * 2 ^ k / 2 ^ E)"

text \<open>
  IEEE 754 binary64, the number type of JavaScript: 53 significant bits, smallest
  positive number \<open>1 / 2 ^ 1074\<close>. It agrees with the rounding of the source on
  every real below the overflow threshold, which is just under \<open>2 ^ 1024\<close>.
\<close>

definition round_double :: "real \<Rightarrow> real" where
  "round_double x = round_binary 53 1074 x"

text \<open>
  Lines 26 to 28 with the rounding \<open>rnd\<close> of the subtraction written out.
  \<open>Math.max\<close> returns one of its arguments and does not round.
\<close>

definition dnsStart_rounded :: "(real \<Rightarrow> real) \<Rightarrow> navEntry \<Rightarrow> real" where
  "dnsStart_rounded rnd navEntry =
     max 0 (rnd (domainLookupStart navEntry - activationStart_offset navEntry))"

definition connectStart_rounded :: "(real \<Rightarrow> real) \<Rightarrow> navEntry \<Rightarrow> real" where
  "connectStart_rounded rnd navEntry =
     max 0 (rnd (connectStart navEntry - activationStart_offset navEntry))"

definition requestStart_rounded :: "(real \<Rightarrow> real) \<Rightarrow> navEntry \<Rightarrow> real" where
  "requestStart_rounded rnd navEntry =
     max 0 (rnd (requestStart navEntry - activationStart_offset navEntry))"

text \<open>
  Lines 21 to 44 with the rounding \<open>rnd\<close> of every subtraction written out. With
  \<open>round_double\<close> this is the source on finite doubles; with the identity it is
  \<open>attributeTTFB\<close>.
\<close>

definition attributeTTFB_rounded :: "(real \<Rightarrow> real) \<Rightarrow> metric \<Rightarrow> metric" where
  "attributeTTFB_rounded rnd metric =
     (if length (entries metric) \<noteq> 0 then
        let navEntry = entries metric ! 0 in
        metric\<lparr>attribution := Some
          \<lparr>waitingTime = dnsStart_rounded rnd navEntry,
           dnsTime = rnd (connectStart_rounded rnd navEntry - dnsStart_rounded rnd navEntry),
           connectionTime =
             rnd (requestStart_rounded rnd navEntry - connectStart_rounded rnd navEntry),
           requestTime = rnd (value metric - requestStart_rounded rnd navEntry)\<rparr>\<rparr>
      else
        metric\<lparr>attribution := Some
          \<lparr>waitingTime = 0,
           dnsTime = 0,
           connectionTime = 0,
           requestTime = 0\<rparr>\<rparr>)"

text \<open>
  The expression \<open>waitingTime + dnsTime + connectionTime + requestTime\<close> as JavaScript
  evaluates it: from the left, every addition rounded.
\<close>

definition components_sum :: "(real \<Rightarrow> real) \<Rightarrow> attribution \<Rightarrow> real" where
  "components_sum rnd a =
     rnd (rnd (rnd (waitingTime a + dnsTime a) + connectionTime a) + requestTime a)"

subsection \<open>onTTFB\<close>

text \<open>
  A report callback acts on the state of its caller: it takes the metric and the state
  and returns the new state.
\<close>

type_synonym 's reportCallback = "metric \<Rightarrow> 's \<Rightarrow> 's"

text \<open>
  Lines 61 to 66. \<open>unattributedOnTTFB\<close> is imported from \<open>../onTTFB.js\<close> and is a
  parameter here: any function that takes a callback and the options and acts on the
  state.
\<close>

definition onTTFB ::
  "('s reportCallback \<Rightarrow> 'o \<Rightarrow> 's \<Rightarrow> 's) \<Rightarrow> 's reportCallback \<Rightarrow> 'o \<Rightarrow> 's \<Rightarrow> 's" where
  "onTTFB unattributedOnTTFB onReport opts =
     unattributedOnTTFB (\<lambda>metric. onReport (attributeTTFB metric)) opts"

text \<open>
  Modelled from the spec: \<open>../onTTFB.js\<close>, the unattributed \<open>onTTFB\<close>, is not among
  the sources. By section 4.5 of the spec it invokes its callback once for each
  measurement cycle. \<open>dispatch ms\<close> is that function for a page life whose cycles
  produce the metrics \<open>ms\<close>: it calls the callback once with each of them, in order.
\<close>

fun dispatch :: "metric list \<Rightarrow> 's reportCallback \<Rightarrow> 'o \<Rightarrow> 's \<Rightarrow> 's" where
  "dispatch [] callback opts s = s"
| "dispatch (metric # ms) callback opts s = dispatch ms callback opts (callback metric s)"

text \<open>A callback that records the metrics it is called with, oldest first.\<close>

definition record_report :: "metric list reportCallback" where
  "record_report metric calls = calls @ [metric]"

subsection \<open>Sample inputs\<close>

text \<open>A plain navigation: the page was not prerendered and the browser reports \<open>0\<close>.\<close>

definition entry_plain :: navEntry where
  "entry_plain =
     \<lparr>activationStart = Some 0, domainLookupStart = 10, connectStart = 12, requestStart = 15\<rparr>"

definition metric_plain :: metric where
  "metric_plain =
     \<lparr>name = ''TTFB'', value = 50, delta = 50, id' = ''v3-1-1'', entries = [entry_plain],
      navigationType = ''navigate'', attribution = None\<rparr>"

text \<open>A prerendered page, activated 200 ms after its time origin.\<close>

definition entry_prerender :: navEntry where
  "entry_prerender =
     \<lparr>activationStart = Some 200, domainLookupStart = 200, connectStart = 205,
      requestStart = 210\<rparr>"

definition metric_prerender :: metric where
  "metric_prerender =
     \<lparr>name = ''TTFB'', value = 20, delta = 20, id' = ''v3-1-2'', entries = [entry_prerender],
      navigationType = ''prerender'', attribution = None\<rparr>"

text \<open>A page restored from the back/forward cache: no entry, value \<open>0\<close>.\<close>

definition metric_restore :: metric where
  "metric_restore =
     \<lparr>name = ''TTFB'', value = 0, delta = 0, id' = ''v3-1-3'', entries = [],
      navigationType = ''back-forward-cache'', attribution = None\<rparr>"

text \<open>A browser without prerendering: the entry has no \<open>activationStart\<close>.\<close>

definition entry_legacy :: navEntry where
  "entry_legacy =
     \<lparr>activationStart = None, domainLookupStart = 10, connectStart = 12, requestStart = 15\<rparr>"

text \<open>The metric of the plain navigation with a second entry behind the first.\<close>

definition metric_two_entries :: metric where
  "metric_two_entries =
     \<lparr>name = ''TTFB'', value = 50, delta = 7, id' = ''v3-1-4'',
      entries = [entry_plain, entry_prerender],
      navigationType = ''reload'', attribution = None\<rparr>"

text \<open>An entry whose connection starts before its domain lookup.\<close>

definition entry_unordered :: navEntry where
  "entry_unordered =
     \<lparr>activationStart = None, domainLookupStart = 10, connectStart = 5, requestStart = 15\<rparr>"

definition metric_unordered :: metric where
  "metric_unordered =
     \<lparr>name = ''TTFB'', value = 50, delta = 50, id' = ''v3-1-5'', entries = [entry_unordered],
      navigationType = ''navigate'', attribution = None\<rparr>"

text \<open>An entry with a negative \<open>activationStart\<close>.\<close>

definition entry_negative_activation :: navEntry where
  "entry_negative_activation =
     \<lparr>activationStart = Some (- 5), domainLookupStart = 10, connectStart = 12,
      requestStart = 15\<rparr>"

text \<open>
  A prerendered page whose request started before activation, with a negative metric
  value.
\<close>

definition entry_early_request :: navEntry where
  "entry_early_request =
     \<lparr>activationStart = Some 200, domainLookupStart = 100, connectStart = 150,
      requestStart = 190\<rparr>"

definition metric_negative_value :: metric where
  "metric_negative_value =
     \<lparr>name = ''TTFB'', value = - 5, delta = - 5, id' = ''v3-1-6'',
      entries = [entry_early_request],
      navigationType = ''prerender'', attribution = None\<rparr>"

text \<open>
  A navigation with fractional timestamps: the doubles nearest to \<open>35.2\<close>, \<open>192.1\<close>
  and \<open>228.9\<close>, and the value \<open>240\<close>.
\<close>

definition entry_fractions :: navEntry where
  "entry_fractions =
     \<lparr>activationStart = None, domainLookupStart = 2476979795053773 / 2 ^ 46,
      connectStart = 6758917878264627 / 2 ^ 45, requestStart = 8053702771133645 / 2 ^ 45\<rparr>"

definition metric_fractions :: metric where
  "metric_fractions =
     \<lparr>name = ''TTFB'', value = 240, delta = 240, id' = ''v3-1-7'', entries = [entry_fractions],
      navigationType = ''navigate'', attribution = None\<rparr>"

subsection \<open>Basic facts\<close>

lemma or_zero_Some [simp]: "or_zero (Some a) = a"
  by (simp add: or_zero_def)

lemma or_zero_None [simp]: "or_zero None = 0"
  by (simp add: or_zero_def)

lemma dnsStart_nonneg: "0 \<le> dnsStart e"
  by (simp add: dnsStart_def)

lemma connectStart_shifted_nonneg: "0 \<le> connectStart_shifted e"
  by (simp add: connectStart_shifted_def)

lemma requestStart_shifted_nonneg: "0 \<le> requestStart_shifted e"
  by (simp add: requestStart_shifted_def)

lemma attributeTTFB_nonempty:
  "entries m \<noteq> [] \<Longrightarrow>
   attribution (attributeTTFB m) = Some
     \<lparr>waitingTime = dnsStart (entries m ! 0),
      dnsTime = connectStart_shifted (entries m ! 0) - dnsStart (entries m ! 0),
      connectionTime = requestStart_shifted (entries m ! 0) - connectStart_shifted (entries m ! 0),
      requestTime = value m - requestStart_shifted (entries m ! 0)\<rparr>"
  by (simp add: attributeTTFB_def Let_def)

lemma attributeTTFB_empty:
  "entries m = [] \<Longrightarrow>
   attribution (attributeTTFB m) = Some
     \<lparr>waitingTime = 0, dnsTime = 0, connectionTime = 0, requestTime = 0\<rparr>"
  by (simp add: attributeTTFB_def)

lemma dispatch_record_report:
  "dispatch ms record_report opts calls = calls @ ms"
  by (induction ms arbitrary: calls) (simp_all add: record_report_def)

lemma dispatch_map:
  "dispatch ms (\<lambda>metric. callback (f metric)) opts s = dispatch (map f ms) callback opts s"
  by (induction ms arbitrary: s) simp_all

lemma round_half_even_error: "\<bar>of_int (round_half_even x) - x\<bar> \<le> 1 / 2"
  unfolding round_half_even_def Let_def by (simp; linarith)

lemma round_binary_zero: "round_binary p E 0 = 0"
  by (simp add: round_binary_def round_half_even_def)

lemma round_binary_ulp:
  "\<bar>round_binary p E x - x\<bar> \<le> 2 ^ (floorlog 2 (nat \<lfloor>\<bar>x\<bar> * 2 ^ E\<rfloor>) - p) / (2 * 2 ^ E)"
proof -
  define k where "k = floorlog 2 (nat \<lfloor>\<bar>x\<bar> * 2 ^ E\<rfloor>) - p"
  define y where "y = x * 2 ^ E / 2 ^ k"
  define s :: real where "s = 2 ^ k / 2 ^ E"
  have sp: "0 < s" by (simp add: s_def)
  have x: "x = y * s" by (simp add: y_def s_def)
  have r: "round_binary p E x = of_int (round_half_even y) * s"
    by (simp add: round_binary_def k_def y_def s_def Let_def)
  have "round_binary p E x - x = (of_int (round_half_even y) - y) * s"
    unfolding r by (subst x) (simp add: algebra_simps)
  then have "\<bar>round_binary p E x - x\<bar> = \<bar>of_int (round_half_even y) - y\<bar> * s"
    using sp by (simp add: abs_mult)
  also have "\<dots> \<le> (1 / 2) * s"
    using sp by (intro mult_right_mono round_half_even_error) simp
  finally show ?thesis by (simp add: k_def s_def)
qed

lemma round_binary_error:
  "\<bar>round_binary (Suc q) E x - x\<bar> \<le> \<bar>x\<bar> / (2 * 2 ^ q) + 1 / (2 * 2 ^ E)"
proof -
  define n where "n = nat \<lfloor>\<bar>x\<bar> * 2 ^ E\<rfloor>"
  define k where "k = floorlog 2 n - Suc q"
  have u: "\<bar>round_binary (Suc q) E x - x\<bar> \<le> 2 ^ k / (2 * 2 ^ E)"
    using round_binary_ulp [of "Suc q" E x] by (simp add: k_def n_def)
  have nn: "0 \<le> \<bar>x\<bar> / (2 * 2 ^ q)" and pe: "0 \<le> 1 / (2 * (2::real) ^ E)" by simp_all
  show ?thesis
  proof (cases "k = 0")
    case True
    with u have "\<bar>round_binary (Suc q) E x - x\<bar> \<le> 1 / (2 * 2 ^ E)" by simp
    with nn show ?thesis by linarith
  next
    case False
    then have fl: "floorlog 2 n = k + Suc q" by (simp add: k_def)
    then have "floorlog 2 n \<noteq> 0" by simp
    then have pos: "0 < n" by (simp add: floorlog_eq_zero_iff)
    from floorlog_bounds [of n 2] pos fl have "2 ^ (k + q) \<le> n" by simp
    then have "(2::real) ^ (k + q) \<le> real n"
      by (metis of_nat_le_iff of_nat_numeral of_nat_power)
    also have "real n \<le> \<bar>x\<bar> * 2 ^ E"
      unfolding n_def by (simp add: of_nat_nat)
    finally have "(2::real) ^ k * 2 ^ q \<le> \<bar>x\<bar> * 2 ^ E" by (simp add: power_add)
    then have "(2::real) ^ k / (2 * 2 ^ E) \<le> \<bar>x\<bar> / (2 * 2 ^ q)"
      by (simp add: field_simps)
    with u pe show ?thesis by linarith
  qed
qed

lemma round_binary_scaled:
  assumes lo: "2 ^ q \<le> \<bar>x\<bar> * 2 ^ j" and hi: "\<bar>x\<bar> * 2 ^ j < 2 * 2 ^ q" and j: "j \<le> E"
  shows "round_binary (Suc q) E x = of_int (round_half_even (x * 2 ^ j)) / 2 ^ j"
proof -
  define n where "n = nat \<lfloor>\<bar>x\<bar> * 2 ^ E\<rfloor>"
  define d where "d = E - j"
  from j have s: "E = j + d" by (simp add: d_def)
  have p: "\<bar>x\<bar> * 2 ^ E = \<bar>x\<bar> * 2 ^ j * 2 ^ d" by (simp add: s power_add)
  from lo have "2 ^ q * 2 ^ d \<le> \<bar>x\<bar> * 2 ^ j * (2::real) ^ d"
    by (rule mult_right_mono) simp
  then have lo': "(2::real) ^ (q + d) \<le> \<bar>x\<bar> * 2 ^ E" by (simp add: p power_add)
  from hi have "\<bar>x\<bar> * 2 ^ j * (2::real) ^ d < 2 * 2 ^ q * 2 ^ d"
    by (rule mult_strict_right_mono) simp
  then have hi': "\<bar>x\<bar> * 2 ^ E < (2::real) ^ (Suc q + d)" by (simp add: p power_add)
  have "of_int (2 ^ (q + d)) \<le> \<bar>x\<bar> * 2 ^ E" using lo' by simp
  then have "2 ^ (q + d) \<le> \<lfloor>\<bar>x\<bar> * 2 ^ E\<rfloor>" by (simp only: le_floor_iff)
  then have nlo: "2 ^ (q + d) \<le> n" unfolding n_def by (simp add: le_nat_iff)
  have "\<bar>x\<bar> * 2 ^ E < of_int (2 ^ (Suc q + d))" using hi' by simp
  then have "\<lfloor>\<bar>x\<bar> * 2 ^ E\<rfloor> < 2 ^ (Suc q + d)" by (simp only: floor_less_iff)
  then have nhi: "n < 2 ^ (Suc q + d)" unfolding n_def by (simp add: nat_less_iff)
  have "floorlog 2 n = Suc q + d"
  proof (rule antisym)
    show "floorlog 2 n \<le> Suc q + d" using nhi by (simp add: floorlog_le_iff)
    show "Suc q + d \<le> floorlog 2 n" using nlo by (intro floorlog_geI) simp_all
  qed
  then have k: "floorlog 2 (nat \<lfloor>\<bar>x\<bar> * 2 ^ E\<rfloor>) - Suc q = d" by (simp add: n_def)
  have "x * 2 ^ E / 2 ^ d = x * 2 ^ j" by (simp add: s power_add)
  moreover have "(2::real) ^ d / 2 ^ E = 1 / 2 ^ j" by (simp add: s power_add)
  ultimately show ?thesis
    unfolding round_binary_def k Let_def by (simp add: field_simps)
qed

lemma round_double_error: "\<bar>round_double x - x\<bar> \<le> \<bar>x\<bar> / 2 ^ 53 + 1 / 2 ^ 1075"
proof -
  have "\<bar>round_binary (Suc 52) 1074 x - x\<bar> \<le> \<bar>x\<bar> / (2 * 2 ^ 52) + 1 / (2 * 2 ^ 1074)"
    by (rule round_binary_error)
  moreover have "(2::real) * 2 ^ 52 = 2 ^ 53" "(2::real) * 2 ^ 1074 = 2 ^ 1075" by simp_all
  ultimately show ?thesis unfolding round_double_def by (simp only: eval_nat_numeral(3)[symmetric]) 
qed

lemma round_double_scaled:
  assumes "2 ^ 52 \<le> \<bar>x\<bar> * 2 ^ j" and "\<bar>x\<bar> * 2 ^ j < 2 ^ 53" and "j \<le> 1074"
  shows "round_double x = of_int (round_half_even (x * 2 ^ j)) / 2 ^ j"
proof -
  have "round_binary (Suc 52) 1074 x = of_int (round_half_even (x * 2 ^ j)) / 2 ^ j"
    using assms by (intro round_binary_scaled) simp_all
  then show ?thesis by (simp add: round_double_def)
qed

lemma round_double_zero: "round_double 0 = 0"
  by (simp add: round_double_def round_binary_zero)

lemma rounded_sum_error:
  fixes rnd :: "real \<Rightarrow> real" and a b c v M h :: real
  assumes R: "\<And>x. \<bar>rnd x - x\<bar> \<le> \<bar>x\<bar> / 2 ^ 53 + h" and h: "0 \<le> h"
    and a: "0 \<le> a" "a \<le> M" and b: "0 \<le> b" "b \<le> M" and c: "0 \<le> c" "c \<le> M"
    and v: "\<bar>v\<bar> \<le> M"
  shows "\<bar>rnd (rnd (rnd (a + rnd (b - a)) + rnd (c - b)) + rnd (v - c)) - v\<bar>
           \<le> M / 2 ^ 50 + 8 * h"
proof -
  define B where "B = M / 2 ^ 53 + h"
  have M: "0 \<le> M" using a by linarith
  have B: "0 \<le> B" using M h by (simp add: B_def)
  have small: "\<bar>x\<bar> / 2 ^ 53 \<le> y / 64" if "\<bar>x\<bar> \<le> y" for x y :: real
  proof -
    have "\<bar>x\<bar> / 2 ^ 53 \<le> \<bar>x\<bar> / 64" by (rule divide_left_mono) simp_all
    also have "\<dots> \<le> y / 64" using that by simp
    finally show ?thesis .
  qed
  have step: "\<bar>rnd (p + q) - (p + q)\<bar> \<le> B + y / 64"
    if "\<bar>p + q - t\<bar> \<le> y" and "\<bar>t\<bar> \<le> M" for p q t y :: real
  proof -
    have "\<bar>p + q\<bar> \<le> \<bar>t\<bar> + \<bar>p + q - t\<bar>" by linarith
    then have "\<bar>p + q\<bar> / 2 ^ 53 \<le> (\<bar>t\<bar> + \<bar>p + q - t\<bar>) / 2 ^ 53"
      by (simp add: divide_right_mono)
    also have "\<dots> = \<bar>t\<bar> / 2 ^ 53 + \<bar>p + q - t\<bar> / 2 ^ 53" by (simp add: add_divide_distrib)
    also have "\<dots> \<le> M / 2 ^ 53 + y / 64"
      using that(2) small [OF that(1)]
      by (intro add_mono divide_right_mono) (simp_all add: abs_idempotent)
    finally show ?thesis using R [of "p + q"] by (simp add: B_def)
  qed
  define e1 where "e1 = rnd (b - a) - (b - a)"
  define e2 where "e2 = rnd (c - b) - (c - b)"
  define e3 where "e3 = rnd (v - c) - (v - c)"
  define s1 where "s1 = rnd (a + rnd (b - a))"
  define e4 where "e4 = s1 - (a + rnd (b - a))"
  define s2 where "s2 = rnd (s1 + rnd (c - b))"
  define e5 where "e5 = s2 - (s1 + rnd (c - b))"
  define s3 where "s3 = rnd (s2 + rnd (v - c))"
  define e6 where "e6 = s3 - (s2 + rnd (v - c))"
  have x1: "\<bar>b - a\<bar> / 2 ^ 53 \<le> M / 2 ^ 53" using a b by (intro divide_right_mono) simp_all
  have x2: "\<bar>c - b\<bar> / 2 ^ 53 \<le> M / 2 ^ 53" using b c by (intro divide_right_mono) simp_all
  have "\<bar>v - c\<bar> \<le> 2 * M" using c v by linarith
  then have x3: "\<bar>v - c\<bar> / 2 ^ 53 \<le> (2 * M) / 2 ^ 53"
    by (intro divide_right_mono) simp_all
  have b1: "\<bar>e1\<bar> \<le> B" using R [of "b - a"] x1 by (simp add: e1_def B_def)
  have b2: "\<bar>e2\<bar> \<le> B" using R [of "c - b"] x2 by (simp add: e2_def B_def)
  have b3: "\<bar>e3\<bar> \<le> 2 * B" using R [of "v - c"] x3 h by (simp add: e3_def B_def)
  have "\<bar>a + rnd (b - a) - b\<bar> \<le> B" using b1 by (simp add: e1_def)
  from step [OF this] b have b4: "\<bar>e4\<bar> \<le> B + B / 64" by (simp add: e4_def s1_def)
  have "\<bar>s1 + rnd (c - b) - c\<bar> \<le> 4 * B"
    using b1 b2 b4 B unfolding e1_def e2_def e4_def by linarith
  from step [OF this] c have b5: "\<bar>e5\<bar> \<le> B + 4 * B / 64" by (simp add: e5_def s2_def)
  have "\<bar>s2 + rnd (v - c) - v\<bar> \<le> 8 * B"
    using b1 b2 b3 b4 b5 B unfolding e1_def e2_def e3_def e4_def e5_def by linarith
  from step [OF this v] have b6: "\<bar>e6\<bar> \<le> B + 8 * B / 64" by (simp add: e6_def s3_def)
  have "\<bar>s3 - v\<bar> \<le> 8 * B"
    using b1 b2 b3 b4 b5 b6 B unfolding e1_def e2_def e3_def e4_def e5_def e6_def by linarith
  then show ?thesis by (simp add: s3_def s2_def s1_def B_def)
qed

lemma rounded_components_error:
  fixes rnd :: "real \<Rightarrow> real" and a b c v M h :: real
  assumes R: "\<And>x. \<bar>rnd x - x\<bar> \<le> \<bar>x\<bar> / 2 ^ 53 + h" and h: "0 \<le> h"
    and a: "0 \<le> a" "a \<le> M" and b: "0 \<le> b" "b \<le> M" and c: "0 \<le> c" "c \<le> M"
    and v: "\<bar>v\<bar> \<le> M"
  shows "\<bar>a + rnd (b - a) + rnd (c - b) + rnd (v - c) - v\<bar> \<le> M / 2 ^ 50 + 8 * h"
proof -
  define B where "B = M / 2 ^ 53 + h"
  have M: "0 \<le> M" using a by linarith
  have B: "0 \<le> B" using M h by (simp add: B_def)
  have x1: "\<bar>b - a\<bar> / 2 ^ 53 \<le> M / 2 ^ 53" using a b by (intro divide_right_mono) simp_all
  have x2: "\<bar>c - b\<bar> / 2 ^ 53 \<le> M / 2 ^ 53" using b c by (intro divide_right_mono) simp_all
  have "\<bar>v - c\<bar> \<le> 2 * M" using c v by linarith
  then have x3: "\<bar>v - c\<bar> / 2 ^ 53 \<le> (2 * M) / 2 ^ 53"
    by (intro divide_right_mono) simp_all
  have b1: "\<bar>rnd (b - a) - (b - a)\<bar> \<le> B" using R [of "b - a"] x1 by (simp add: B_def)
  have b2: "\<bar>rnd (c - b) - (c - b)\<bar> \<le> B" using R [of "c - b"] x2 by (simp add: B_def)
  have b3: "\<bar>rnd (v - c) - (v - c)\<bar> \<le> 2 * B" using R [of "v - c"] x3 h by (simp add: B_def)
  have "\<bar>a + rnd (b - a) + rnd (c - b) + rnd (v - c) - v\<bar> \<le> 8 * B"
    using b1 b2 b3 B by linarith
  then show ?thesis by (simp add: B_def)
qed

lemma attributeTTFB_rounded_nonempty:
  "entries m \<noteq> [] \<Longrightarrow>
   attribution (attributeTTFB_rounded rnd m) = Some
     \<lparr>waitingTime = dnsStart_rounded rnd (entries m ! 0),
      dnsTime =
        rnd (connectStart_rounded rnd (entries m ! 0) - dnsStart_rounded rnd (entries m ! 0)),
      connectionTime =
        rnd (requestStart_rounded rnd (entries m ! 0) - connectStart_rounded rnd (entries m ! 0)),
      requestTime = rnd (value m - requestStart_rounded rnd (entries m ! 0))\<rparr>"
  by (simp add: attributeTTFB_rounded_def Let_def)

lemma attributeTTFB_rounded_empty:
  "entries m = [] \<Longrightarrow>
   attribution (attributeTTFB_rounded rnd m) = Some
     \<lparr>waitingTime = 0, dnsTime = 0, connectionTime = 0, requestTime = 0\<rparr>"
  by (simp add: attributeTTFB_rounded_def)

lemma attributeTTFB_rounded_exact: "attributeTTFB_rounded (\<lambda>x. x) m = attributeTTFB m"
  by (simp add: attributeTTFB_rounded_def attributeTTFB_def dnsStart_rounded_def
      connectStart_rounded_def requestStart_rounded_def dnsStart_def connectStart_shifted_def
      requestStart_shifted_def)

lemma attributeTTFB_exact_sum:
  assumes "entries m \<noteq> [] \<or> value m = 0"
  shows "\<exists>a. attribution (attributeTTFB m) = Some a \<and>
           waitingTime a + dnsTime a + connectionTime a + requestTime a = value m"
proof (cases "entries m = []")
  case True
  with assms have "value m = 0" by simp
  with attributeTTFB_empty [OF True] show ?thesis by simp
next
  case False
  from attributeTTFB_nonempty [OF False] show ?thesis by simp
qed

lemma entry_fractions_nearest:
  "round_double (352 / 10) = domainLookupStart entry_fractions"
  "round_double (1921 / 10) = connectStart entry_fractions"
  "round_double (2289 / 10) = requestStart entry_fractions"
  unfolding entry_fractions_def
  subgoal by (subst round_double_scaled [where j = 47]) (simp_all add: round_half_even_def)
  subgoal by (subst round_double_scaled [where j = 45]) (simp_all add: round_half_even_def)
  subgoal by (subst round_double_scaled [where j = 45]) (simp_all add: round_half_even_def)
  done

lemma entry_fractions_starts:
  "dnsStart_rounded round_double entry_fractions = 2476979795053773 / 2 ^ 46"
  "connectStart_rounded round_double entry_fractions = 6758917878264627 / 2 ^ 45"
  "requestStart_rounded round_double entry_fractions = 8053702771133645 / 2 ^ 45"
proof -
  have "round_double (2476979795053773 / 2 ^ 46) = 2476979795053773 / 2 ^ 46"
    by (subst round_double_scaled [where j = 47]) (simp_all add: round_half_even_def)
  then show "dnsStart_rounded round_double entry_fractions = 2476979795053773 / 2 ^ 46"
    by (simp add: dnsStart_rounded_def entry_fractions_def activationStart_offset_def)
  have "round_double (6758917878264627 / 2 ^ 45) = 6758917878264627 / 2 ^ 45"
    by (subst round_double_scaled [where j = 45]) (simp_all add: round_half_even_def)
  then show "connectStart_rounded round_double entry_fractions = 6758917878264627 / 2 ^ 45"
    by (simp add: connectStart_rounded_def entry_fractions_def activationStart_offset_def)
  have "round_double (8053702771133645 / 2 ^ 45) = 8053702771133645 / 2 ^ 45"
    by (subst round_double_scaled [where j = 45]) (simp_all add: round_half_even_def)
  then show "requestStart_rounded round_double entry_fractions = 8053702771133645 / 2 ^ 45"
    by (simp add: requestStart_rounded_def entry_fractions_def activationStart_offset_def)
qed

lemma entry_fractions_differences:
  "round_double (6758917878264627 / 2 ^ 45 - 2476979795053773 / 2 ^ 46) =
     1380106995184435 / 2 ^ 43"
  "round_double (8053702771133645 / 2 ^ 45 - 6758917878264627 / 2 ^ 45) =
     647392446434509 / 2 ^ 44"
  "round_double (240 - 8053702771133645 / 2 ^ 45) = 390546530186035 / 2 ^ 45"
  subgoal by (subst round_double_scaled [where j = 45]) (simp_all add: round_half_even_def)
  subgoal by (subst round_double_scaled [where j = 47]) (simp_all add: round_half_even_def)
  subgoal by (subst round_double_scaled [where j = 49]) (simp_all add: round_half_even_def)
  done

lemma entry_fractions_sums:
  "round_double (2476979795053773 / 2 ^ 46 + 1380106995184435 / 2 ^ 43) =
     3379458939132313 / 2 ^ 44"
  "round_double (3379458939132313 / 2 ^ 44 + 647392446434509 / 2 ^ 44) =
     2013425692783411 / 2 ^ 43"
  "round_double (2013425692783411 / 2 ^ 43 + 390546530186035 / 2 ^ 45) =
     8444249301319679 / 2 ^ 45"
  subgoal by (subst round_double_scaled [where j = 45]) (simp_all add: round_half_even_def)
  subgoal by (subst round_double_scaled [where j = 45]) (simp_all add: round_half_even_def)
  subgoal by (subst round_double_scaled [where j = 45]) (simp_all add: round_half_even_def)
  done

lemma shift_clamp_mono:
  fixes x y a :: real
  shows "x \<le> y \<Longrightarrow> max 0 (x - a) \<le> max 0 (y - a)"
  by (simp add: max_def)

section \<open>The properties\<close>

text \<open>
  C1, as the code has it. The components are rounded doubles, so they sum to the value
  up to rounding, not exactly. With no entries and the value \<open>0\<close>, the sum is the value.
  With a non-empty list of entries, when \<open>M\<close> bounds the three clamped start points and
  the magnitude of the value, and \<open>M\<close> is at most \<open>2 ^ 1000\<close> (nothing overflows), the sum
  \<open>waitingTime + dnsTime + connectionTime + requestTime\<close> differs from the value by at
  most \<open>M / 2 ^ 50 + 1 / 2 ^ 1072\<close>, whether the additions are rounded, as JavaScript
  evaluates them, or exact.
\<close>

theorem attributeTTFB_components_sum_tolerance:
  "(entries m = [] \<and> value m = 0 \<longrightarrow>
      (\<exists>a. attribution (attributeTTFB_rounded round_double m) = Some a \<and>
         components_sum round_double a = value m)) \<and>
   (entries m \<noteq> [] \<and>
    dnsStart_rounded round_double (entries m ! 0) \<le> M \<and>
    connectStart_rounded round_double (entries m ! 0) \<le> M \<and>
    requestStart_rounded round_double (entries m ! 0) \<le> M \<and>
    \<bar>value m\<bar> \<le> M \<and> M \<le> 2 ^ 1000 \<longrightarrow>
      (\<exists>a. attribution (attributeTTFB_rounded round_double m) = Some a \<and>
         \<bar>components_sum round_double a - value m\<bar> \<le> M / 2 ^ 50 + 1 / 2 ^ 1072 \<and>
         \<bar>waitingTime a + dnsTime a + connectionTime a + requestTime a - value m\<bar>
           \<le> M / 2 ^ 50 + 1 / 2 ^ 1072))"
proof (intro conjI impI)
  assume "entries m = [] \<and> value m = 0"
  then have e: "entries m = []" and v: "value m = 0" by simp_all
  from attributeTTFB_rounded_empty [OF e] v
  show "\<exists>a. attribution (attributeTTFB_rounded round_double m) = Some a \<and>
          components_sum round_double a = value m"
    by (simp add: components_sum_def round_double_zero)
next
  let ?e = "entries m ! 0"
  let ?a = "dnsStart_rounded round_double ?e"
  let ?b = "connectStart_rounded round_double ?e"
  let ?c = "requestStart_rounded round_double ?e"
  assume h: "entries m \<noteq> [] \<and> ?a \<le> M \<and> ?b \<le> M \<and> ?c \<le> M \<and>
    \<bar>value m\<bar> \<le> M \<and> M \<le> 2 ^ 1000"
  have nonneg: "0 \<le> ?a" "0 \<le> ?b" "0 \<le> ?c"
    by (simp_all add: dnsStart_rounded_def connectStart_rounded_def requestStart_rounded_def)
  have eta: "8 * (1 / 2 ^ 1075) = 1 / (2::real) ^ 1072" by simp
  have "\<bar>round_double (round_double (round_double (?a + round_double (?b - ?a))
            + round_double (?c - ?b)) + round_double (value m - ?c)) - value m\<bar>
          \<le> M / 2 ^ 50 + 8 * (1 / 2 ^ 1075)"
    using h nonneg by (intro rounded_sum_error round_double_error) simp_all
  then have rounded: "\<bar>round_double (round_double (round_double (?a + round_double (?b - ?a))
            + round_double (?c - ?b)) + round_double (value m - ?c)) - value m\<bar>
          \<le> M / 2 ^ 50 + 1 / 2 ^ 1072"
    by (simp only: eta)
  have "\<bar>?a + round_double (?b - ?a) + round_double (?c - ?b) + round_double (value m - ?c)
            - value m\<bar>
          \<le> M / 2 ^ 50 + 8 * (1 / 2 ^ 1075)"
    using h nonneg by (intro rounded_components_error round_double_error) simp_all
  then have exact: "\<bar>?a + round_double (?b - ?a) + round_double (?c - ?b)
            + round_double (value m - ?c) - value m\<bar>
          \<le> M / 2 ^ 50 + 1 / 2 ^ 1072"
    by (simp only: eta)
  from h have "entries m \<noteq> []" by simp
  with rounded exact
  show "\<exists>a. attribution (attributeTTFB_rounded round_double m) = Some a \<and>
          \<bar>components_sum round_double a - value m\<bar> \<le> M / 2 ^ 50 + 1 / 2 ^ 1072 \<and>
          \<bar>waitingTime a + dnsTime a + connectionTime a + requestTime a - value m\<bar>
            \<le> M / 2 ^ 50 + 1 / 2 ^ 1072"
    by (simp only: attributeTTFB_rounded_nonempty components_sum_def
        attribution.simps option.inject simp_thms ex_simps)
qed

theorem attributeTTFB_components_sum_tolerance_witness:
  "entries metric_restore = [] \<and> value metric_restore = 0 \<and>
   (\<exists>a. attribution (attributeTTFB_rounded round_double metric_restore) = Some a \<and>
      components_sum round_double a = value metric_restore) \<and>
   entries metric_fractions \<noteq> [] \<and>
   dnsStart_rounded round_double (entries metric_fractions ! 0) \<le> 240 \<and>
   connectStart_rounded round_double (entries metric_fractions ! 0) \<le> 240 \<and>
   requestStart_rounded round_double (entries metric_fractions ! 0) \<le> 240 \<and>
   \<bar>value metric_fractions\<bar> \<le> 240 \<and> (240::real) \<le> 2 ^ 1000 \<and>
   (\<exists>a. attribution (attributeTTFB_rounded round_double metric_fractions) = Some a \<and>
      \<bar>components_sum round_double a - value metric_fractions\<bar>
        \<le> 240 / 2 ^ 50 + 1 / 2 ^ 1072 \<and>
      \<bar>waitingTime a + dnsTime a + connectionTime a + requestTime a - value metric_fractions\<bar>
        \<le> 240 / 2 ^ 50 + 1 / 2 ^ 1072)"
proof -
  have r: "entries metric_restore = [] \<and> value metric_restore = 0"
    by (simp add: metric_restore_def)
  have e: "entries metric_fractions ! 0 = entry_fractions"
    by (simp add: metric_fractions_def)
  have f: "entries metric_fractions \<noteq> [] \<and>
    dnsStart_rounded round_double (entries metric_fractions ! 0) \<le> 240 \<and>
    connectStart_rounded round_double (entries metric_fractions ! 0) \<le> 240 \<and>
    requestStart_rounded round_double (entries metric_fractions ! 0) \<le> 240 \<and>
    \<bar>value metric_fractions\<bar> \<le> 240 \<and> (240::real) \<le> 2 ^ 1000"
    unfolding e entry_fractions_starts by (simp add: metric_fractions_def)
  from attributeTTFB_components_sum_tolerance [of metric_restore 0, THEN conjunct1, rule_format, OF r]
    attributeTTFB_components_sum_tolerance [of metric_fractions 240, THEN conjunct2, rule_format, OF f]
    r f
  show ?thesis by (simp only: simp_thms)
qed

theorem attributeTTFB_sum_rounds_below_value:
  "entries metric_fractions \<noteq> [] \<and>
   attribution (attributeTTFB_rounded round_double metric_fractions) =
     Some \<lparr>waitingTime = 2476979795053773 / 2 ^ 46, dnsTime = 1380106995184435 / 2 ^ 43,
       connectionTime = 647392446434509 / 2 ^ 44, requestTime = 390546530186035 / 2 ^ 45\<rparr> \<and>
   components_sum round_double (the (attribution (attributeTTFB_rounded round_double metric_fractions))) =
     240 - 1 / 2 ^ 45 \<and>
   value metric_fractions = 240 \<and>
   components_sum round_double (the (attribution (attributeTTFB_rounded round_double metric_fractions)))
     \<noteq> value metric_fractions"
proof -
  have ne: "entries metric_fractions \<noteq> []" and e: "entries metric_fractions ! 0 = entry_fractions"
    and v: "value metric_fractions = 240"
    by (simp_all add: metric_fractions_def)
  have a: "attribution (attributeTTFB_rounded round_double metric_fractions) =
     Some \<lparr>waitingTime = 2476979795053773 / 2 ^ 46, dnsTime = 1380106995184435 / 2 ^ 43,
       connectionTime = 647392446434509 / 2 ^ 44, requestTime = 390546530186035 / 2 ^ 45\<rparr>"
    by (simp only: attributeTTFB_rounded_nonempty [OF ne] e v entry_fractions_starts
        entry_fractions_differences)
  have s: "components_sum round_double
      \<lparr>waitingTime = 2476979795053773 / 2 ^ 46, dnsTime = 1380106995184435 / 2 ^ 43,
       connectionTime = 647392446434509 / 2 ^ 44, requestTime = 390546530186035 / 2 ^ 45\<rparr> =
     8444249301319679 / 2 ^ 45"
    by (simp only: components_sum_def attribution.simps entry_fractions_sums)
  have d: "(8444249301319679::real) / 2 ^ 45 = 240 - 1 / 2 ^ 45" by simp
  have t: "components_sum round_double
      (the (attribution (attributeTTFB_rounded round_double metric_fractions))) =
     240 - 1 / 2 ^ 45"
    by (simp only: a option.sel s d)
  have n: "components_sum round_double
      (the (attribution (attributeTTFB_rounded round_double metric_fractions))) \<noteq>
     value metric_fractions"
    unfolding t v by simp
  from ne a t v n show ?thesis by (intro conjI)
qed

text \<open>
  C2, as the code has it. The clamp to zero is applied to the three shifted start
  points, not to the differences between them. So the start points and \<open>waitingTime\<close>
  are never negative; with a non-empty list of entries, \<open>dnsTime\<close>, \<open>connectionTime\<close>
  and \<open>requestTime\<close> are non-negative exactly when the clamped start points and the
  value are in order.
\<close>

theorem attributeTTFB_clamps_start_points:
  "\<exists>a. attribution (attributeTTFB m) = Some a \<and> 0 \<le> waitingTime a \<and>
     (entries m \<noteq> [] \<longrightarrow>
        0 \<le> dnsStart (entries m ! 0) \<and>
        0 \<le> connectStart_shifted (entries m ! 0) \<and>
        0 \<le> requestStart_shifted (entries m ! 0) \<and>
        (0 \<le> dnsTime a) = (dnsStart (entries m ! 0) \<le> connectStart_shifted (entries m ! 0)) \<and>
        (0 \<le> connectionTime a) =
          (connectStart_shifted (entries m ! 0) \<le> requestStart_shifted (entries m ! 0)) \<and>
        (0 \<le> requestTime a) = (requestStart_shifted (entries m ! 0) \<le> value m))"
proof (cases "entries m = []")
  case True
  with attributeTTFB_empty [OF True] show ?thesis by simp
next
  case False
  from attributeTTFB_nonempty [OF False] False show ?thesis
    by (simp add: dnsStart_nonneg connectStart_shifted_nonneg requestStart_shifted_nonneg)
qed

theorem attributeTTFB_clamps_start_points_witness:
  "entries metric_unordered \<noteq> [] \<and>
   (\<exists>a. attribution (attributeTTFB metric_unordered) = Some a \<and> 0 \<le> waitingTime a \<and>
      \<not> 0 \<le> dnsTime a \<and> 0 \<le> connectionTime a \<and> 0 \<le> requestTime a)"
proof -
  have ne: "entries metric_unordered \<noteq> []" by (simp add: metric_unordered_def)
  have e: "entries metric_unordered ! 0 = entry_unordered" by (simp add: metric_unordered_def)
  have v: "value metric_unordered = 50" by (simp add: metric_unordered_def)
  have s: "dnsStart entry_unordered = 10" "connectStart_shifted entry_unordered = 5"
    "requestStart_shifted entry_unordered = 15"
    by (simp_all add: dnsStart_def connectStart_shifted_def requestStart_shifted_def
        activationStart_offset_def entry_unordered_def)
  from attributeTTFB_clamps_start_points [of metric_unordered] ne show ?thesis
    by (simp add: e v s)
qed

theorem attributeTTFB_negative_dnsTime:
  "attribution (attributeTTFB metric_unordered) =
     Some \<lparr>waitingTime = 10, dnsTime = - 5, connectionTime = 10, requestTime = 35\<rparr> \<and>
   \<not> 0 \<le> dnsTime (the (attribution (attributeTTFB metric_unordered)))"
  by (simp add: attributeTTFB_def Let_def metric_unordered_def entry_unordered_def dnsStart_def
      connectStart_shifted_def requestStart_shifted_def activationStart_offset_def)

text \<open>
  C3. For a metric with no entries, all four components are exactly \<open>0\<close>.
\<close>

theorem attributeTTFB_no_entries:
  assumes "entries m = []"
  shows "attribution (attributeTTFB m) =
           Some \<lparr>waitingTime = 0, dnsTime = 0, connectionTime = 0, requestTime = 0\<rparr>"
  using assms by (rule attributeTTFB_empty)

theorem attributeTTFB_no_entries_witness:
  "entries metric_restore = [] \<and>
   attribution (attributeTTFB metric_restore) =
     Some \<lparr>waitingTime = 0, dnsTime = 0, connectionTime = 0, requestTime = 0\<rparr>"
proof -
  have h: "entries metric_restore = []" by (simp add: metric_restore_def)
  from h attributeTTFB_no_entries [OF h] show ?thesis by simp
qed

text \<open>
  C4. A first entry with \<open>activationStart = 0\<close>, \<open>domainLookupStart = 10\<close>,
  \<open>connectStart = 12\<close>, \<open>requestStart = 15\<close> and a value of \<open>50\<close> give the attribution
  \<open>{waitingTime: 10, dnsTime: 2, connectionTime: 3, requestTime: 35}\<close>.
\<close>

theorem attributeTTFB_scenario_plain:
  assumes "entries m = e # es"
    and "activationStart e = Some 0" and "domainLookupStart e = 10"
    and "connectStart e = 12" and "requestStart e = 15" and "value m = 50"
  shows "attribution (attributeTTFB m) =
           Some \<lparr>waitingTime = 10, dnsTime = 2, connectionTime = 3, requestTime = 35\<rparr>"
proof -
  from assms(1) have ne: "entries m \<noteq> []" and e: "entries m ! 0 = e" by simp_all
  from assms(2-5) have "dnsStart e = 10" "connectStart_shifted e = 12"
    "requestStart_shifted e = 15"
    by (simp_all add: dnsStart_def connectStart_shifted_def requestStart_shifted_def
        activationStart_offset_def)
  with attributeTTFB_nonempty [OF ne] e assms(6) show ?thesis by simp
qed

theorem attributeTTFB_scenario_plain_witness:
  "entries metric_plain = entry_plain # [] \<and>
   activationStart entry_plain = Some 0 \<and> domainLookupStart entry_plain = 10 \<and>
   connectStart entry_plain = 12 \<and> requestStart entry_plain = 15 \<and>
   value metric_plain = 50 \<and>
   attribution (attributeTTFB metric_plain) =
     Some \<lparr>waitingTime = 10, dnsTime = 2, connectionTime = 3, requestTime = 35\<rparr>"
proof -
  have h: "entries metric_plain = entry_plain # []"
    "activationStart entry_plain = Some 0" "domainLookupStart entry_plain = 10"
    "connectStart entry_plain = 12" "requestStart entry_plain = 15"
    "value metric_plain = 50"
    by (simp_all add: metric_plain_def entry_plain_def)
  from h attributeTTFB_scenario_plain [OF h] show ?thesis by simp
qed

text \<open>
  C5. A first entry with \<open>activationStart = 200\<close>, \<open>domainLookupStart = 200\<close>,
  \<open>connectStart = 205\<close>, \<open>requestStart = 210\<close> and a value of \<open>20\<close>: the shifted and
  clamped start points are \<open>0\<close>, \<open>5\<close> and \<open>10\<close>, and the attribution is
  \<open>{waitingTime: 0, dnsTime: 5, connectionTime: 5, requestTime: 10}\<close>.
\<close>

theorem attributeTTFB_scenario_prerender:
  assumes "entries m = e # es"
    and "activationStart e = Some 200" and "domainLookupStart e = 200"
    and "connectStart e = 205" and "requestStart e = 210" and "value m = 20"
  shows "dnsStart e = 0 \<and> connectStart_shifted e = 5 \<and> requestStart_shifted e = 10 \<and>
         attribution (attributeTTFB m) =
           Some \<lparr>waitingTime = 0, dnsTime = 5, connectionTime = 5, requestTime = 10\<rparr>"
proof -
  from assms(1) have ne: "entries m \<noteq> []" and e: "entries m ! 0 = e" by simp_all
  from assms(2-5) have s: "dnsStart e = 0" "connectStart_shifted e = 5"
    "requestStart_shifted e = 10"
    by (simp_all add: dnsStart_def connectStart_shifted_def requestStart_shifted_def
        activationStart_offset_def)
  with attributeTTFB_nonempty [OF ne] e assms(6) show ?thesis by simp
qed

theorem attributeTTFB_scenario_prerender_witness:
  "entries metric_prerender = entry_prerender # [] \<and>
   activationStart entry_prerender = Some 200 \<and> domainLookupStart entry_prerender = 200 \<and>
   connectStart entry_prerender = 205 \<and> requestStart entry_prerender = 210 \<and>
   value metric_prerender = 20 \<and>
   dnsStart entry_prerender = 0 \<and> connectStart_shifted entry_prerender = 5 \<and>
   requestStart_shifted entry_prerender = 10 \<and>
   attribution (attributeTTFB metric_prerender) =
     Some \<lparr>waitingTime = 0, dnsTime = 5, connectionTime = 5, requestTime = 10\<rparr>"
proof -
  have h: "entries metric_prerender = entry_prerender # []"
    "activationStart entry_prerender = Some 200" "domainLookupStart entry_prerender = 200"
    "connectStart entry_prerender = 205" "requestStart entry_prerender = 210"
    "value metric_prerender = 20"
    by (simp_all add: metric_prerender_def entry_prerender_def)
  from h attributeTTFB_scenario_prerender [OF h] show ?thesis by simp
qed

text \<open>
  C6, as the code has it. The offset used for shifting is the recorded
  \<open>activationStart\<close> when the entry has one, and \<open>0\<close> when it has none (a recorded
  \<open>0\<close> is falsy and gives \<open>0\<close> as well). The code does not clamp the offset: it is
  non-negative exactly when the entry has no \<open>activationStart\<close> or a non-negative one.
\<close>

theorem activationStart_offset_recorded_or_zero:
  "activationStart_offset e = (case activationStart e of None \<Rightarrow> 0 | Some a \<Rightarrow> a) \<and>
   (0 \<le> activationStart_offset e) =
     (case activationStart e of None \<Rightarrow> True | Some a \<Rightarrow> 0 \<le> a)"
  by (simp add: activationStart_offset_def split: option.splits)

theorem activationStart_offset_recorded_or_zero_witness:
  "activationStart entry_prerender = Some 200 \<and> activationStart_offset entry_prerender = 200 \<and>
   0 \<le> activationStart_offset entry_prerender \<and>
   activationStart entry_legacy = None \<and> activationStart_offset entry_legacy = 0 \<and>
   0 \<le> activationStart_offset entry_legacy \<and>
   activationStart entry_plain = Some 0 \<and> activationStart_offset entry_plain = 0 \<and>
   activationStart entry_negative_activation = Some (- 5) \<and>
   activationStart_offset entry_negative_activation = - 5"
proof -
  have p: "activationStart entry_prerender = Some 200"
    and l: "activationStart entry_legacy = None"
    and z: "activationStart entry_plain = Some 0"
    and n: "activationStart entry_negative_activation = Some (- 5)"
    by (simp_all add: entry_prerender_def entry_legacy_def entry_plain_def
        entry_negative_activation_def)
  from activationStart_offset_recorded_or_zero [of entry_prerender]
    activationStart_offset_recorded_or_zero [of entry_legacy]
    activationStart_offset_recorded_or_zero [of entry_plain]
    activationStart_offset_recorded_or_zero [of entry_negative_activation]
  show ?thesis by (simp add: p l z n)
qed

theorem activationStart_offset_negative:
  "activationStart entry_negative_activation = Some (- 5) \<and>
   activationStart_offset entry_negative_activation = - 5 \<and>
   \<not> 0 \<le> activationStart_offset entry_negative_activation"
  by (simp add: activationStart_offset_def entry_negative_activation_def)

text \<open>
  C7. The callback handed to the unattributed \<open>onTTFB\<close> calls \<open>attributeTTFB\<close> and then
  \<open>onReport\<close>, once. So, whatever \<open>onReport\<close> does, registering it through the wrapper is
  the same as calling it on the attributed metric of each dispatched cycle; the calls
  that a recording callback sees are the attributed metrics of the cycles, one per cycle
  and in order, and each carries an attribution.
\<close>

theorem onTTFB_reports_attributed_once:
  "onTTFB (dispatch ms) onReport opts s = dispatch (map attributeTTFB ms) onReport opts s \<and>
   onTTFB (dispatch ms) record_report opts [] = map attributeTTFB ms \<and>
   length (onTTFB (dispatch ms) record_report opts []) = length ms \<and>
   list_all (\<lambda>metric. attribution metric \<noteq> None) (onTTFB (dispatch ms) record_report opts [])"
proof -
  have a: "onTTFB (dispatch ms) onReport opts s = dispatch (map attributeTTFB ms) onReport opts s"
    by (simp add: onTTFB_def dispatch_map)
  have b: "onTTFB (dispatch ms) record_report opts [] = map attributeTTFB ms"
    by (simp add: onTTFB_def dispatch_map dispatch_record_report)
  have c: "attribution (attributeTTFB m) \<noteq> None" for m
    by (simp add: attributeTTFB_def Let_def)
  from a b c show ?thesis by (simp add: list_all_iff)
qed

theorem onTTFB_reports_attributed_once_witness:
  "onTTFB (dispatch [metric_plain, metric_restore]) record_report () [] =
     [metric_plain\<lparr>attribution :=
        Some \<lparr>waitingTime = 10, dnsTime = 2, connectionTime = 3, requestTime = 35\<rparr>\<rparr>,
      metric_restore\<lparr>attribution :=
        Some \<lparr>waitingTime = 0, dnsTime = 0, connectionTime = 0, requestTime = 0\<rparr>\<rparr>]"
proof -
  have p: "attributeTTFB metric_plain = metric_plain\<lparr>attribution :=
        Some \<lparr>waitingTime = 10, dnsTime = 2, connectionTime = 3, requestTime = 35\<rparr>\<rparr>"
    by (simp add: attributeTTFB_def Let_def metric_plain_def entry_plain_def dnsStart_def
        connectStart_shifted_def requestStart_shifted_def activationStart_offset_def)
  have r: "attributeTTFB metric_restore = metric_restore\<lparr>attribution :=
        Some \<lparr>waitingTime = 0, dnsTime = 0, connectionTime = 0, requestTime = 0\<rparr>\<rparr>"
    by (simp add: attributeTTFB_def metric_restore_def)
  from onTTFB_reports_attributed_once
    [of "[metric_plain, metric_restore]" record_report "()" "[]", THEN conjunct2, THEN conjunct1]
  show ?thesis by (simp add: p r)
qed

text \<open>
  C8. With a non-empty list of entries, the attribution depends only on the first
  entry and on the value: two metrics that agree on both get the same attribution,
  whatever their later entries.
\<close>

theorem attributeTTFB_first_entry_authoritative:
  assumes "entries m1 \<noteq> []" and "entries m2 \<noteq> []"
    and "entries m1 ! 0 = entries m2 ! 0" and "value m1 = value m2"
  shows "attribution (attributeTTFB m1) = attribution (attributeTTFB m2)"
  using attributeTTFB_nonempty [OF assms(1)] attributeTTFB_nonempty [OF assms(2)] assms(3,4)
  by simp

theorem attributeTTFB_first_entry_authoritative_witness:
  "entries metric_plain \<noteq> [] \<and> entries metric_two_entries \<noteq> [] \<and>
   entries metric_plain ! 0 = entries metric_two_entries ! 0 \<and>
   value metric_plain = value metric_two_entries \<and>
   entries metric_plain \<noteq> entries metric_two_entries \<and>
   attribution (attributeTTFB metric_plain) = attribution (attributeTTFB metric_two_entries)"
proof -
  have h: "entries metric_plain \<noteq> []" "entries metric_two_entries \<noteq> []"
    "entries metric_plain ! 0 = entries metric_two_entries ! 0"
    "value metric_plain = value metric_two_entries"
    by (simp_all add: metric_plain_def metric_two_entries_def)
  have d: "entries metric_plain \<noteq> entries metric_two_entries"
    by (simp add: metric_plain_def metric_two_entries_def)
  from h d attributeTTFB_first_entry_authoritative [OF h] show ?thesis by simp
qed

text \<open>
  C9. \<open>attributeTTFB\<close> writes the field \<open>attribution\<close> and nothing else: \<open>name\<close>, \<open>value\<close>,
  \<open>delta\<close>, \<open>id\<close>, \<open>entries\<close> and \<open>navigationType\<close> are as they were.
\<close>

theorem attributeTTFB_frame:
  "name (attributeTTFB m) = name m \<and> value (attributeTTFB m) = value m \<and>
   delta (attributeTTFB m) = delta m \<and> id' (attributeTTFB m) = id' m \<and>
   entries (attributeTTFB m) = entries m \<and>
   navigationType (attributeTTFB m) = navigationType m \<and>
   attributeTTFB m = m\<lparr>attribution := attribution (attributeTTFB m)\<rparr>"
  by (simp add: attributeTTFB_def Let_def)

text \<open>
  C10, as the code has it. When the raw timestamps of the first entry are in order
  (\<open>domainLookupStart \<le> connectStart \<le> requestStart\<close>), the value is at least
  \<open>requestStart - activationStart\<close> and the value is not negative, then \<open>dnsTime\<close>,
  \<open>connectionTime\<close> and \<open>requestTime\<close> are non-negative: shifting and clamping is
  monotone.
\<close>

theorem attributeTTFB_ordered_nonneg:
  assumes "entries m \<noteq> []"
    and "domainLookupStart (entries m ! 0) \<le> connectStart (entries m ! 0)"
    and "connectStart (entries m ! 0) \<le> requestStart (entries m ! 0)"
    and "requestStart (entries m ! 0) - activationStart_offset (entries m ! 0) \<le> value m"
    and "0 \<le> value m"
  shows "\<exists>a. attribution (attributeTTFB m) = Some a \<and>
           0 \<le> dnsTime a \<and> 0 \<le> connectionTime a \<and> 0 \<le> requestTime a"
proof -
  let ?e = "entries m ! 0"
  from assms(2) have d: "dnsStart ?e \<le> connectStart_shifted ?e"
    unfolding dnsStart_def connectStart_shifted_def by (rule shift_clamp_mono)
  from assms(3) have c: "connectStart_shifted ?e \<le> requestStart_shifted ?e"
    unfolding connectStart_shifted_def requestStart_shifted_def by (rule shift_clamp_mono)
  from assms(4,5) have r: "requestStart_shifted ?e \<le> value m"
    by (simp add: requestStart_shifted_def)
  from attributeTTFB_nonempty [OF assms(1)] d c r show ?thesis by simp
qed

theorem attributeTTFB_ordered_nonneg_witness:
  "entries metric_prerender \<noteq> [] \<and>
   domainLookupStart (entries metric_prerender ! 0) \<le> connectStart (entries metric_prerender ! 0) \<and>
   connectStart (entries metric_prerender ! 0) \<le> requestStart (entries metric_prerender ! 0) \<and>
   requestStart (entries metric_prerender ! 0) - activationStart_offset (entries metric_prerender ! 0)
     \<le> value metric_prerender \<and>
   0 \<le> value metric_prerender \<and>
   (\<exists>a. attribution (attributeTTFB metric_prerender) = Some a \<and>
      0 \<le> dnsTime a \<and> 0 \<le> connectionTime a \<and> 0 \<le> requestTime a)"
proof -
  have h: "entries metric_prerender \<noteq> []"
    "domainLookupStart (entries metric_prerender ! 0) \<le> connectStart (entries metric_prerender ! 0)"
    "connectStart (entries metric_prerender ! 0) \<le> requestStart (entries metric_prerender ! 0)"
    "requestStart (entries metric_prerender ! 0) - activationStart_offset (entries metric_prerender ! 0)
       \<le> value metric_prerender"
    "0 \<le> value metric_prerender"
    by (simp_all add: metric_prerender_def entry_prerender_def activationStart_offset_def)
  from h attributeTTFB_ordered_nonneg [OF h] show ?thesis by simp
qed

theorem attributeTTFB_negative_requestTime:
  "domainLookupStart (entries metric_negative_value ! 0)
     \<le> connectStart (entries metric_negative_value ! 0) \<and>
   connectStart (entries metric_negative_value ! 0)
     \<le> requestStart (entries metric_negative_value ! 0) \<and>
   requestStart (entries metric_negative_value ! 0)
       - activationStart_offset (entries metric_negative_value ! 0)
     \<le> value metric_negative_value \<and>
   attribution (attributeTTFB metric_negative_value) =
     Some \<lparr>waitingTime = 0, dnsTime = 0, connectionTime = 0, requestTime = - 5\<rparr> \<and>
   \<not> 0 \<le> requestTime (the (attribution (attributeTTFB metric_negative_value)))"
  by (simp add: attributeTTFB_def Let_def metric_negative_value_def entry_early_request_def
      dnsStart_def connectStart_shifted_def requestStart_shifted_def activationStart_offset_def)

end
